theory Spec2Isabelle
  imports Main
begin

section \<open>Data model\<close>

text \<open>
  Modelled from the spec: the type declaration \<^verbatim>\<open>TrackerDevice\<close> lives in
  \<^verbatim>\<open>client.py\<close>, which is not among the sources. The records below carry the keys
  that \<^verbatim>\<open>device_tracker.py\<close> reads, with the types section 3 of the specification
  gives them. Latitude and longitude are kept as the numeric strings the remote
  service delivers; the keys are called \<open>latitude_str\<close> and \<open>longitude_str\<close> because
  \<open>latitude\<close> and \<open>longitude\<close> are the names of the entity's reads further down.
\<close>

record Simcard =
  tariff_type :: string
  balance_cents :: int

record Location =
  latitude_str :: string
  longitude_str :: string
  last_communication :: string
  last_location_update :: string
  altitude :: int
  location_type :: string
  address :: string
  signal_strength :: int
  satellite_count :: int
  host :: string
  port :: int
  battery_percentage :: int

record TrackerDevice =
  uuid :: string
  name :: string
  serial_number :: string
  status :: string
  phone_number :: string
  simcard :: Simcard
  last_location :: Location

text \<open>
  Python exceptions of class \<^verbatim>\<open>Exception\<close>, the class both handlers of the module
  catch (\<^verbatim>\<open>except Exception as err\<close>). \<open>UpdateFailed\<close> wraps the exception it is
  raised from. Signals outside that class, such as the cancellation of the running
  task or the exit of the interpreter, are not raised by the collaborators modelled
  here and have no constructor.
\<close>

datatype exception =
    TimeoutError
  | ValueError string
  | TypeError string
  | OtherException string
  | UpdateFailed exception

type_synonym datetime = nat

text \<open>One constructor per logging call of the module; the level is kept beside it.\<close>

datatype level = DEBUG | ERROR

datatype log_msg =
    UpdateFromCoordinator "TrackerDevice list"
  | UpdatingSensorData "datetime option"
  | NoNewData
  | ErrorInUpdatingUpdater
  | ErrorValue exception
  | CannotGetZone exception
  | TrackerNotFound string "TrackerDevice list"

type_synonym log_entry = "level \<times> log_msg"

section \<open>The tracked device\<close>

text \<open>
  The two attributes of \<^verbatim>\<open>One2TrackSensor\<close> that the module mutates: \<^verbatim>\<open>_device\<close> and
  \<^verbatim>\<open>_zone_name\<close> (the leading underscore is dropped).
\<close>

record One2TrackSensor =
  device :: TrackerDevice
  zone_name :: "string option"

definition unique_id :: "One2TrackSensor \<Rightarrow> string" where
  "unique_id s = uuid (device s)"

text \<open>
  \<^verbatim>\<open>_update_from_latest_data\<close>. The argument is \<^verbatim>\<open>self.coordinator.data\<close>, which is
  \<^verbatim>\<open>None\<close> until a refresh has succeeded; iterating over \<^verbatim>\<open>None\<close> raises a
  \<^verbatim>\<open>TypeError\<close>. \<^verbatim>\<open>next(..., None)\<close> yields the first record whose uuid is the
  entity's unique id. A record is a dictionary with keys, hence truthy, so
  \<^verbatim>\<open>if me\<close> succeeds exactly when a record was found. The result is the value
  returned or the exception raised, the entity afterwards, and the lines logged.
\<close>

definition update_from_latest_data ::
  "TrackerDevice list option \<Rightarrow> One2TrackSensor
     \<Rightarrow> (exception + unit) \<times> One2TrackSensor \<times> log_entry list" where
  "update_from_latest_data new_data s =
     (case new_data of
        None \<Rightarrow> (Inl (TypeError ''NoneType object is not iterable''), s, [])
      | Some xs \<Rightarrow>
          (case find (\<lambda>x. uuid x = unique_id s) xs of
             Some me \<Rightarrow> (Inr (), s\<lparr>device := me\<rparr>, [])
           | None \<Rightarrow> (Inr (), s, [(ERROR, TrackerNotFound (unique_id s) xs)])))"

text \<open>
  \<^verbatim>\<open>location_name\<close>. \<^verbatim>\<open>if self._zone_name\<close> is Python truthiness: \<^verbatim>\<open>None\<close> and the
  empty string are both false.
\<close>

definition location_name :: "One2TrackSensor \<Rightarrow> string" where
  "location_name s =
     (if location_type (last_location (device s)) = ''WIFI'' then ''home''
      else (case zone_name s of
              Some z \<Rightarrow> if z \<noteq> [] then z else address (last_location (device s))
            | None \<Rightarrow> address (last_location (device s))))"

text \<open>
  Python's builtin \<^verbatim>\<open>float\<close> applied to a string either returns the number the
  string denotes or raises \<^verbatim>\<open>ValueError\<close>. Floating-point numbers are not modelled:
  the parser is a parameter \<open>parse\<close> into any type \<open>'f\<close>, with \<open>None\<close> for a
  string that denotes no number.
\<close>

definition py_float :: "(string \<Rightarrow> 'f option) \<Rightarrow> string \<Rightarrow> exception + 'f" where
  "py_float parse x = (case parse x of Some v \<Rightarrow> Inr v | None \<Rightarrow> Inl (ValueError x))"

definition latitude :: "(string \<Rightarrow> 'f option) \<Rightarrow> One2TrackSensor \<Rightarrow> exception + 'f" where
  "latitude parse s = py_float parse (latitude_str (last_location (device s)))"

definition longitude :: "(string \<Rightarrow> 'f option) \<Rightarrow> One2TrackSensor \<Rightarrow> exception + 'f" where
  "longitude parse s = py_float parse (longitude_str (last_location (device s)))"

text \<open>
  The state object of a zone, as the host's lookup returns it; the module reads only
  its \<^verbatim>\<open>name\<close>.
\<close>

datatype Zone = Zone (zone_dot_name: string)

text \<open>
  \<^verbatim>\<open>await\<close> applied to what the lookup returned. The imported
  \<^verbatim>\<open>homeassistant.components.zone.async_active_zone\<close> is a plain function, not a
  coroutine function: its value is a zone's state object or \<^verbatim>\<open>None\<close>. Neither can be
  awaited, so \<^verbatim>\<open>await\<close> raises \<^verbatim>\<open>TypeError\<close> on both.
\<close>

definition py_await :: "Zone option \<Rightarrow> exception + Zone option" where
  "py_await v =
     (case v of
        Some z \<Rightarrow> Inl (TypeError ''object State cannot be used in await expression'')
      | None \<Rightarrow> Inl (TypeError ''object NoneType cannot be used in await expression''))"

text \<open>
  \<^verbatim>\<open>_async_update_zone\<close>. The host's \<^verbatim>\<open>async_active_zone\<close> is a parameter: given the
  two coordinates it returns a zone, returns \<^verbatim>\<open>None\<close>, or raises. The arguments
  \<^verbatim>\<open>self.latitude\<close> and \<^verbatim>\<open>self.longitude\<close> are evaluated, in this order, inside the
  \<^verbatim>\<open>try\<close> block before the call, and the value of the call is awaited there too, so
  a parse error, an error of the lookup and the error of the await all reach the
  handler. The two branches on \<^verbatim>\<open>zone\<close> are kept as the source has them; a zone
  object is truthy.
\<close>

definition async_update_zone ::
  "(string \<Rightarrow> 'f option) \<Rightarrow> ('f \<Rightarrow> 'f \<Rightarrow> exception + Zone option) \<Rightarrow> One2TrackSensor
     \<Rightarrow> (exception + unit) \<times> One2TrackSensor \<times> log_entry list" where
  "async_update_zone parse async_active_zone s =
     (case (case latitude parse s of
              Inl err \<Rightarrow> Inl err
            | Inr lat \<Rightarrow>
                (case longitude parse s of
                   Inl err \<Rightarrow> Inl err
                 | Inr lon \<Rightarrow>
                     (case async_active_zone lat lon of
                        Inl err \<Rightarrow> Inl err
                      | Inr v \<Rightarrow> py_await v))) of
        Inr zone \<Rightarrow>
          (case zone of
             Some z \<Rightarrow> (Inr (), s\<lparr>zone_name := Some (zone_dot_name z)\<rparr>, [])
           | None \<Rightarrow> (Inr (), s\<lparr>zone_name := None\<rparr>, []))
      | Inl err \<Rightarrow> (Inr (), s\<lparr>zone_name := None\<rparr>, [(ERROR, CannotGetZone err)]))"

section \<open>The refresh coordinator\<close>

text \<open>
  \<^verbatim>\<open>GpsCoordinator\<close>: the two attributes its constructor sets besides the client, and
  \<^verbatim>\<open>data\<close>, the attribute of the base class \<^verbatim>\<open>DataUpdateCoordinator\<close> that holds the
  snapshot last published. The base class writes \<^verbatim>\<open>data\<close>; this module only reads it.
\<close>

record GpsCoordinator =
  first_boot :: bool
  last_update :: "datetime option"
  data :: "TrackerDevice list option"

text \<open>\<^verbatim>\<open>GpsCoordinator.__init__\<close>; \<^verbatim>\<open>async_setup_entry\<close> calls it with \<^verbatim>\<open>True\<close>.\<close>

definition init_GpsCoordinator :: "bool \<Rightarrow> GpsCoordinator" where
  "init_GpsCoordinator fb = \<lparr>first_boot = fb, last_update = None, data = None\<rparr>"

text \<open>
  What \<^verbatim>\<open>await self.gps_api.update()\<close> does under \<^verbatim>\<open>async_timeout.timeout(300)\<close>: the
  client returns a list of records, raises, or is still running when the timeout
  elapses, in which case the context manager raises \<^verbatim>\<open>TimeoutError\<close> at the await.
\<close>

datatype fetch = Returned "TrackerDevice list" | Raised exception | TimedOut

definition await_update :: "fetch \<Rightarrow> exception + TrackerDevice list" where
  "await_update f =
     (case f of Returned d \<Rightarrow> Inr d | Raised err \<Rightarrow> Inl err | TimedOut \<Rightarrow> Inl TimeoutError)"

text \<open>
  \<^verbatim>\<open>_async_update_data\<close>. \<open>now\<close> is the value of \<^verbatim>\<open>datetime.now()\<close>. The local
  \<^verbatim>\<open>update\<close> is the constant \<^verbatim>\<open>True\<close> of the source, and both branches of the
  conditional are kept.
\<close>

definition async_update_data ::
  "datetime \<Rightarrow> fetch \<Rightarrow> GpsCoordinator
     \<Rightarrow> (exception + TrackerDevice list option) \<times> GpsCoordinator \<times> log_entry list" where
  "async_update_data now f c =
     (case await_update f of
        Inr d \<Rightarrow>
          (let update = True in
           if update \<or> first_boot c
           then (Inr (Some d), c\<lparr>last_update := Some now\<rparr>,
                 [(DEBUG, UpdateFromCoordinator d), (DEBUG, UpdatingSensorData (last_update c))])
           else (Inr None, c, [(DEBUG, UpdateFromCoordinator d), (DEBUG, NoNewData)]))
      | Inl err \<Rightarrow>
          (Inl (UpdateFailed err), c, [(ERROR, ErrorInUpdatingUpdater), (ERROR, ErrorValue err)]))"

section \<open>Sample records\<close>

text \<open>The records of the scenarios in section 8 of the specification.\<close>

definition sim0 :: Simcard where
  "sim0 = \<lparr>tariff_type = ''prepaid'', balance_cents = 500\<rparr>"

definition loc_main :: Location where
  "loc_main = \<lparr>latitude_str = ''52.37'', longitude_str = ''4.89'',
     last_communication = ''t1'', last_location_update = ''t1'', altitude = 0,
     location_type = ''WIFI'', address = ''123 Main'', signal_strength = 3,
     satellite_count = 0, host = ''h'', port = 80, battery_percentage = 90\<rparr>"

definition loc_oak :: Location where
  "loc_oak = \<lparr>latitude_str = ''52.09'', longitude_str = ''5.12'',
     last_communication = ''t2'', last_location_update = ''t2'', altitude = 4,
     location_type = ''GPS'', address = ''456 Oak'', signal_strength = 5,
     satellite_count = 7, host = ''h'', port = 80, battery_percentage = 71\<rparr>"

definition loc_bad :: Location where
  "loc_bad = loc_oak\<lparr>latitude_str := ''north''\<rparr>"

definition a1_wifi :: TrackerDevice where
  "a1_wifi = \<lparr>uuid = ''a1'', name = ''watch'', serial_number = ''sn1'', status = ''GPS'',
     phone_number = ''0600'', simcard = sim0, last_location = loc_main\<rparr>"

definition a1_gps :: TrackerDevice where
  "a1_gps = \<lparr>uuid = ''a1'', name = ''watch renamed'', serial_number = ''sn1'',
     status = ''GPS'', phone_number = ''0611'', simcard = sim0, last_location = loc_oak\<rparr>"

definition b2 :: TrackerDevice where
  "b2 = \<lparr>uuid = ''b2'', name = ''other'', serial_number = ''sn2'', status = ''OFFLINE'',
     phone_number = ''0622'', simcard = sim0, last_location = loc_oak\<rparr>"

text \<open>
  A parser for the samples: it knows the coordinates of the two sample locations and
  gives them in hundredths of a degree.
\<close>

definition sample_parse :: "string \<Rightarrow> int option" where
  "sample_parse x =
     (if x = ''52.37'' then Some 5237 else if x = ''4.89'' then Some 489
      else if x = ''52.09'' then Some 5209 else if x = ''5.12'' then Some 512
      else None)"

text \<open>The device \<open>a1\<close> with a latitude that is no number.\<close>

definition a1_bad :: TrackerDevice where
  "a1_bad = a1_gps\<lparr>last_location := loc_bad\<rparr>"

text \<open>A zone lookup that finds the zone \<open>Office\<close> at every position.\<close>

definition zone_office :: "int \<Rightarrow> int \<Rightarrow> exception + Zone option" where
  "zone_office lat lon = Inr (Some (Zone ''Office''))"

lemmas sample_defs =
  sim0_def loc_main_def loc_oak_def loc_bad_def a1_wifi_def a1_gps_def b2_def a1_bad_def
  sample_parse_def

section \<open>Reconciliation of a tracked device with a snapshot\<close>

text \<open>\<open>find\<close> returns the first element that satisfies the predicate.\<close>

lemma find_first_match:
  "find P (pre @ me # post) = Some me" if "\<forall>x \<in> set pre. \<not> P x" and "P me"
  using that by (induction pre) simp_all

text \<open>
  With several records of the same uuid in a snapshot, the entity takes the first.
\<close>

lemma reconcile_first_match:
  assumes "\<forall>x \<in> set pre. uuid x \<noteq> unique_id s" and "uuid me = unique_id s"
  shows "update_from_latest_data (Some (pre @ me # post)) s
           = (Inr (), \<lparr>device = me, zone_name = zone_name s\<rparr>, [])"
proof -
  have "find (\<lambda>x. uuid x = unique_id s) (pre @ me # post) = Some me"
    using assms by (intro find_first_match) simp_all
  then show ?thesis
    by (simp add: update_from_latest_data_def)
qed

text \<open>
  C1. When the snapshot holds a record \<open>r\<close> whose uuid is the entity's unique id,
  \<^verbatim>\<open>_update_from_latest_data\<close> returns normally, logs nothing, and leaves an entity whose
  cached record is a record \<open>me\<close> of the snapshot with that uuid, taken whole: no
  field of the previous record remains, and the cached zone name is not touched.
  That record is \<open>r\<close> itself whenever \<open>r\<close> is the only record of the snapshot with
  that uuid, as the data model requires of a snapshot.
\<close>

theorem reconcile_found_replaces:
  assumes "r \<in> set snapshot" and "uuid r = unique_id s"
  shows "\<exists>me \<in> set snapshot. uuid me = unique_id s \<and>
           update_from_latest_data (Some snapshot) s
             = (Inr (), \<lparr>device = me, zone_name = zone_name s\<rparr>, []) \<and>
           ((\<forall>x \<in> set snapshot. uuid x = unique_id s \<longrightarrow> x = r) \<longrightarrow> me = r)"
proof -
  from assms have "find (\<lambda>x. uuid x = unique_id s) snapshot \<noteq> None"
    by (auto simp: find_None_iff)
  then obtain me where found: "find (\<lambda>x. uuid x = unique_id s) snapshot = Some me"
    by blast
  then obtain i where i: "i < length snapshot" "uuid (snapshot ! i) = unique_id s"
      "me = snapshot ! i"
    by (auto simp: find_Some_iff)
  have mem: "me \<in> set snapshot" using i by simp
  have run: "update_from_latest_data (Some snapshot) s
               = (Inr (), \<lparr>device = me, zone_name = zone_name s\<rparr>, [])"
    using found by (simp add: update_from_latest_data_def)
  show ?thesis
    using mem i run by blast
qed

text \<open>C1 at a snapshot of two records, the entity holding an older record of \<open>a1\<close>.\<close>

theorem reconcile_found_replaces_witness:
  "update_from_latest_data (Some [b2, a1_gps]) \<lparr>device = a1_wifi, zone_name = Some ''Office''\<rparr>
     = (Inr (), \<lparr>device = a1_gps, zone_name = Some ''Office''\<rparr>, [])"
proof -
  let ?s = "\<lparr>device = a1_wifi, zone_name = Some ''Office''\<rparr>"
  have mem: "a1_gps \<in> set [b2, a1_gps]" by simp
  have key: "uuid a1_gps = unique_id ?s" by (simp add: unique_id_def a1_gps_def a1_wifi_def)
  have uniq: "\<forall>x \<in> set [b2, a1_gps]. uuid x = unique_id ?s \<longrightarrow> x = a1_gps"
    by (simp add: unique_id_def b2_def a1_wifi_def)
  from reconcile_found_replaces [OF mem key] uniq show ?thesis
    by auto
qed

text \<open>
  C2. When no record of the snapshot has the entity's unique id (the empty snapshot
  included), \<^verbatim>\<open>_update_from_latest_data\<close> returns normally, leaves the entity as it
  was, cached record and zone name alike, and logs one line at level ERROR.
\<close>

theorem reconcile_not_found_holds:
  assumes "\<forall>x \<in> set snapshot. uuid x \<noteq> unique_id s"
  shows "update_from_latest_data (Some snapshot) s
           = (Inr (), s, [(ERROR, TrackerNotFound (unique_id s) snapshot)])"
proof -
  from assms have "find (\<lambda>x. uuid x = unique_id s) snapshot = None"
    by (simp add: find_None_iff)
  then show ?thesis
    by (simp add: update_from_latest_data_def)
qed

text \<open>C2 at a snapshot that holds only another device.\<close>

theorem reconcile_not_found_holds_witness:
  "update_from_latest_data (Some [b2]) \<lparr>device = a1_wifi, zone_name = Some ''Office''\<rparr>
     = (Inr (), \<lparr>device = a1_wifi, zone_name = Some ''Office''\<rparr>,
        [(ERROR, TrackerNotFound ''a1'' [b2])])"
proof -
  let ?s = "\<lparr>device = a1_wifi, zone_name = Some ''Office''\<rparr>"
  have miss: "\<forall>x \<in> set [b2]. uuid x \<noteq> unique_id ?s"
    by (simp add: unique_id_def b2_def a1_wifi_def)
  have "unique_id ?s = ''a1''" by (simp add: unique_id_def a1_wifi_def)
  with reconcile_not_found_holds [OF miss] show ?thesis
    by simp
qed

text \<open>The scenario of the empty snapshot.\<close>

lemma reconcile_empty_snapshot:
  "update_from_latest_data (Some []) s = (Inr (), s, [(ERROR, TrackerNotFound (unique_id s) [])])"
  by (simp add: update_from_latest_data_def)

text \<open>
  C10. The unique id, read from the cached record's uuid, is the same before and
  after \<^verbatim>\<open>_update_from_latest_data\<close>, for every entity and every value of the
  coordinator's data: a snapshot with a matching record, one without, or no snapshot.
\<close>

theorem unique_id_invariant:
  "unique_id (fst (snd (update_from_latest_data new_data s))) = unique_id s"
proof (cases new_data)
  case None
  then show ?thesis by (simp add: update_from_latest_data_def)
next
  case (Some xs)
  show ?thesis
  proof (cases "find (\<lambda>x. uuid x = unique_id s) xs")
    case None
    with Some show ?thesis by (simp add: update_from_latest_data_def)
  next
    case (Some me)
    then have "uuid me = unique_id s" by (auto simp: find_Some_iff)
    with Some \<open>new_data = Some xs\<close> show ?thesis
      by (simp add: update_from_latest_data_def unique_id_def)
  qed
qed

text \<open>C10 at the snapshot of two records.\<close>

theorem unique_id_invariant_witness:
  "unique_id (fst (snd (update_from_latest_data (Some [b2, a1_gps])
      \<lparr>device = a1_wifi, zone_name = None\<rparr>))) = ''a1''"
  using unique_id_invariant [of "Some [b2, a1_gps]" "\<lparr>device = a1_wifi, zone_name = None\<rparr>"]
  by (simp add: unique_id_def a1_wifi_def)

section \<open>The location label\<close>

text \<open>
  C3. When the cached record's location type is the string \<open>WIFI\<close>, the label read
  returns \<open>home\<close>, whatever the cached zone name and the record's address are.
\<close>

theorem wifi_label_is_home:
  assumes "location_type (last_location (device s)) = ''WIFI''"
  shows "location_name s = ''home''"
  using assms by (simp add: location_name_def)

text \<open>
  C3 at the record of the scenario (address \<open>123 Main\<close>), with a zone name cached.
\<close>

theorem wifi_label_is_home_witness:
  "location_name \<lparr>device = a1_wifi, zone_name = Some ''Office''\<rparr> = ''home''"
proof -
  have "location_type (last_location (device \<lparr>device = a1_wifi, zone_name = Some ''Office''\<rparr>))
          = ''WIFI''"
    by (simp add: a1_wifi_def loc_main_def)
  then show ?thesis by (rule wifi_label_is_home)
qed

text \<open>
  C4. When the location type is not \<open>WIFI\<close> and no zone name is cached (the cache is
  \<^verbatim>\<open>None\<close> or the empty string), the label read returns the record's address string
  as it is.
\<close>

theorem label_falls_back_to_address:
  assumes "location_type (last_location (device s)) \<noteq> ''WIFI''"
    and "zone_name s = None \<or> zone_name s = Some []"
  shows "location_name s = address (last_location (device s))"
  using assms by (auto simp: location_name_def)

text \<open>
  C4 at the record of the scenario: location type \<open>GPS\<close>, address \<open>456 Oak\<close>.
\<close>

theorem label_falls_back_to_address_witness:
  "location_name \<lparr>device = a1_gps, zone_name = None\<rparr> = ''456 Oak''"
proof -
  let ?s = "\<lparr>device = a1_gps, zone_name = None\<rparr>"
  have t: "location_type (last_location (device ?s)) \<noteq> ''WIFI''"
    by (simp add: a1_gps_def loc_oak_def)
  have z: "zone_name ?s = None \<or> zone_name ?s = Some []" by simp
  have "address (last_location (device ?s)) = ''456 Oak''"
    by (simp add: a1_gps_def loc_oak_def)
  with label_falls_back_to_address [OF t z] show ?thesis by simp
qed

text \<open>
  The middle rule of the precedence: a cached, non-empty zone name is the label of a
  record that is not of type \<open>WIFI\<close>.
\<close>

lemma label_is_cached_zone:
  assumes "location_type (last_location (device s)) \<noteq> ''WIFI''"
    and "zone_name s = Some z" and "z \<noteq> []"
  shows "location_name s = z"
  using assms by (simp add: location_name_def)

section \<open>The coordinate reads\<close>

text \<open>
  C8. The latitude read returns the parse of the record's latitude string, and raises
  \<^verbatim>\<open>ValueError\<close> to its caller when the string denotes no number; it returns no
  default. The longitude read does the same with the longitude string. Each read is a
  function of the entity that yields a result and nothing else, so it changes neither
  the cached record nor the cached zone name, and the failure of one read says
  nothing about the other.
\<close>

theorem coordinate_reads_parse_or_raise:
  "(\<forall>v. parse (latitude_str (last_location (device s))) = Some v
        \<longrightarrow> latitude parse s = Inr v) \<and>
   (parse (latitude_str (last_location (device s))) = None
        \<longrightarrow> latitude parse s = Inl (ValueError (latitude_str (last_location (device s))))) \<and>
   (\<forall>v. parse (longitude_str (last_location (device s))) = Some v
        \<longrightarrow> longitude parse s = Inr v) \<and>
   (parse (longitude_str (last_location (device s))) = None
        \<longrightarrow> longitude parse s = Inl (ValueError (longitude_str (last_location (device s)))))"
  by (simp add: latitude_def longitude_def py_float_def)

text \<open>
  C8 at a record whose latitude is \<open>north\<close>: the latitude read raises, the longitude
  read of the same entity returns.
\<close>

theorem coordinate_reads_parse_or_raise_witness:
  "latitude sample_parse \<lparr>device = a1_bad, zone_name = None\<rparr> = Inl (ValueError ''north'') \<and>
   longitude sample_parse \<lparr>device = a1_bad, zone_name = None\<rparr> = Inr 512"
proof -
  let ?s = "\<lparr>device = a1_bad, zone_name = None\<rparr>"
  have lat: "latitude_str (last_location (device ?s)) = ''north''"
    by (simp add: a1_bad_def loc_bad_def)
  have lon: "longitude_str (last_location (device ?s)) = ''5.12''"
    by (simp add: a1_bad_def loc_bad_def loc_oak_def)
  have p1: "sample_parse ''north'' = None" by (simp add: sample_parse_def)
  have p2: "sample_parse ''5.12'' = Some 512" by (simp add: sample_parse_def)
  from coordinate_reads_parse_or_raise [of sample_parse ?s] lat lon p1 p2
  show ?thesis by simp
qed



section \<open>Zone resolution\<close>

text \<open>
  \<^verbatim>\<open>_async_update_zone\<close> returns normally on every input.
\<close>

lemma zone_update_never_raises:
  "fst (async_update_zone parse lookup s) = Inr ()"
  by (simp add: async_update_zone_def py_await_def split: sum.splits option.splits)

text \<open>
  \<^verbatim>\<open>_async_update_zone\<close> never writes the cached record.
\<close>

lemma zone_update_keeps_device:
  "device (fst (snd (async_update_zone parse lookup s))) = device s"
  by (simp add: async_update_zone_def py_await_def split: sum.splits option.splits)

text \<open>
  An exception of the lookup is logged and clears the cached zone name, as is a
  coordinate that does not parse, in which case the lookup is not called.
\<close>

lemma zone_update_lookup_error:
  assumes "latitude parse s = Inr lat" and "longitude parse s = Inr lon"
    and "lookup lat lon = Inl err"
  shows "async_update_zone parse lookup s
           = (Inr (), \<lparr>device = device s, zone_name = None\<rparr>, [(ERROR, CannotGetZone err)])"
  using assms by (simp add: async_update_zone_def)

lemma zone_update_parse_error:
  assumes "latitude parse s = Inl err \<or>
           (\<exists>lat. latitude parse s = Inr lat) \<and> longitude parse s = Inl err"
  shows "async_update_zone parse lookup s
           = (Inr (), \<lparr>device = device s, zone_name = None\<rparr>, [(ERROR, CannotGetZone err)])"
  using assms by (auto simp: async_update_zone_def)

text \<open>
  The branches that store a zone's name, or store \<^verbatim>\<open>None\<close> without logging, are
  taken on no input: whatever the lookup does, the call ends in the handler, with the
  cached zone name \<^verbatim>\<open>None\<close> and one line logged at level ERROR.
\<close>

lemma zone_update_always_clears:
  "\<exists>err. async_update_zone parse lookup s
           = (Inr (), \<lparr>device = device s, zone_name = None\<rparr>, [(ERROR, CannotGetZone err)])"
  by (simp add: async_update_zone_def py_await_def split: sum.splits option.splits)

text \<open>
  C9. The claim says that a lookup which returns a zone sets the cached zone name to
  that zone's name. The code does not: for the record of type \<open>GPS\<close> with address
  \<open>456 Oak\<close>, whose coordinates parse, and a lookup that returns the zone \<open>Office\<close>,
  \<^verbatim>\<open>_async_update_zone\<close> ends with the cached zone name \<^verbatim>\<open>None\<close> and logs the
  \<^verbatim>\<open>TypeError\<close> of the await, so the label stays the address.
\<close>

theorem zone_found_is_not_cached:
  "async_update_zone sample_parse zone_office \<lparr>device = a1_gps, zone_name = None\<rparr>
     = (Inr (), \<lparr>device = a1_gps, zone_name = None\<rparr>,
        [(ERROR, CannotGetZone
                   (TypeError ''object State cannot be used in await expression''))]) \<and>
   location_name (fst (snd (async_update_zone sample_parse zone_office
       \<lparr>device = a1_gps, zone_name = None\<rparr>))) = ''456 Oak''"
  by (simp add: async_update_zone_def py_await_def latitude_def longitude_def py_float_def
      location_name_def zone_office_def sample_defs)

section \<open>The refresh operation\<close>

text \<open>
  C5. When the client's \<^verbatim>\<open>update\<close> raises, or the timeout elapses,
  \<^verbatim>\<open>_async_update_data\<close> raises \<^verbatim>\<open>UpdateFailed\<close>, wrapping the exception, and the
  coordinator is as it was before the cycle: the last-update timestamp and the
  published snapshot are unchanged. Two lines are logged at level ERROR.
\<close>

theorem refresh_failure_signals_update_failed:
  "async_update_data now (Raised err) c
     = (Inl (UpdateFailed err), c, [(ERROR, ErrorInUpdatingUpdater), (ERROR, ErrorValue err)]) \<and>
   async_update_data now TimedOut c
     = (Inl (UpdateFailed TimeoutError), c,
        [(ERROR, ErrorInUpdatingUpdater), (ERROR, ErrorValue TimeoutError)])"
  by (simp add: async_update_data_def await_update_def)

text \<open>
  C5 at a timeout, for a coordinator that holds a snapshot and a timestamp.
\<close>

theorem refresh_failure_signals_update_failed_witness:
  "async_update_data 7 TimedOut \<lparr>first_boot = True, last_update = Some 3, data = Some [a1_wifi]\<rparr>
     = (Inl (UpdateFailed TimeoutError),
        \<lparr>first_boot = True, last_update = Some 3, data = Some [a1_wifi]\<rparr>,
        [(ERROR, ErrorInUpdatingUpdater), (ERROR, ErrorValue TimeoutError)])"
  using refresh_failure_signals_update_failed
    [of 7 _ "\<lparr>first_boot = True, last_update = Some 3, data = Some [a1_wifi]\<rparr>"]
  by (rule conjunct2)

text \<open>
  C7. When the client's \<^verbatim>\<open>update\<close> returns a snapshot, \<^verbatim>\<open>_async_update_data\<close>
  returns that snapshot and sets the last-update timestamp to the current time, for
  every value of the first-boot flag and every previous snapshot. The branch that
  returns \<^verbatim>\<open>None\<close> and logs "No new data to enter" is taken on no input.
\<close>

theorem refresh_success_always_publishes:
  "async_update_data now (Returned d) c
     = (Inr (Some d), c\<lparr>last_update := Some now\<rparr>,
        [(DEBUG, UpdateFromCoordinator d), (DEBUG, UpdatingSensorData (last_update c))]) \<and>
   (\<forall>f. fst (async_update_data now f c) \<noteq> Inr None \<and>
        (DEBUG, NoNewData) \<notin> set (snd (snd (async_update_data now f c))))"
  by (simp add: async_update_data_def await_update_def split: fetch.splits)

text \<open>
  C7 at a coordinator whose first-boot flag is false and whose published snapshot
  equals the one fetched.
\<close>

theorem refresh_success_always_publishes_witness:
  "async_update_data 7 (Returned [a1_wifi])
       \<lparr>first_boot = False, last_update = Some 3, data = Some [a1_wifi]\<rparr>
     = (Inr (Some [a1_wifi]), \<lparr>first_boot = False, last_update = Some 7, data = Some [a1_wifi]\<rparr>,
        [(DEBUG, UpdateFromCoordinator [a1_wifi]), (DEBUG, UpdatingSensorData (Some 3))])"
  using refresh_success_always_publishes
    [of 7 "[a1_wifi]" "\<lparr>first_boot = False, last_update = Some 3, data = Some [a1_wifi]\<rparr>"]
  by simp

text \<open>
  C6, as stated, fails: the coordinator that \<^verbatim>\<open>async_setup_entry\<close> constructs, with the
  first-boot flag true, still has the flag true after a successful refresh.
\<close>

theorem first_boot_not_cleared_counterexample:
  "\<not> (first_boot (fst (snd (async_update_data 7 (Returned [a1_wifi]) (init_GpsCoordinator True))))
        = False)"
  by (simp add: async_update_data_def await_update_def init_GpsCoordinator_def)

text \<open>
  C6, amended. A refresh cycle, successful or failed, leaves the first-boot flag at
  the value it had before the cycle: \<^verbatim>\<open>_async_update_data\<close> never assigns it. The
  flag decides nothing: with the flag set to any value \<open>b\<close> the cycle returns the
  same result, logs the same lines and leaves the same coordinator, the flag apart.
\<close>

theorem first_boot_is_kept:
  "first_boot (fst (snd (async_update_data now f c))) = first_boot c \<and>
   fst (async_update_data now f (c\<lparr>first_boot := b\<rparr>)) = fst (async_update_data now f c) \<and>
   fst (snd (async_update_data now f (c\<lparr>first_boot := b\<rparr>)))
     = (fst (snd (async_update_data now f c)))\<lparr>first_boot := b\<rparr> \<and>
   snd (snd (async_update_data now f (c\<lparr>first_boot := b\<rparr>)))
     = snd (snd (async_update_data now f c))"
  by (cases f) (simp_all add: async_update_data_def await_update_def)

text \<open>
  C6 amended, at a successful refresh of a coordinator constructed with the flag true,
  compared with the same coordinator with the flag false.
\<close>

theorem first_boot_is_kept_witness:
  "first_boot (fst (snd (async_update_data 7 (Returned [a1_gps]) (init_GpsCoordinator True)))) \<and>
   fst (async_update_data 7 (Returned [a1_gps]) ((init_GpsCoordinator True)\<lparr>first_boot := False\<rparr>))
     = fst (async_update_data 7 (Returned [a1_gps]) (init_GpsCoordinator True))"
  using first_boot_is_kept [of 7 "Returned [a1_gps]" "init_GpsCoordinator True" False]
  by (simp add: init_GpsCoordinator_def)

end
